theory Spec2Isabelle
  imports Main
begin

section \<open>C strings and fixed-size character arrays\<close>

text \<open>
  A value of C type \<open>const char *\<close> is modelled by the bytes it addresses before the
  terminating NUL. A character array is a list of cells; a cell that was never written
  (a local array before its first store) is \<open>None\<close>.
\<close>

definition NUL :: char where
  "NUL = CHR 0x00"

definition c_str :: "string \<Rightarrow> string" where
  "c_str bytes = takeWhile (\<lambda>c. c \<noteq> NUL) bytes"

type_synonym c_array = "char option list"

text \<open>
  \<open>snprintf(buf, bound, ...)\<close>: the bytes it stores from offset 0 of \<open>buf\<close>, for the
  formatted text \<open>str\<close>. With \<open>bound = 0\<close> nothing is stored; otherwise at most
  \<open>bound - 1\<close> characters of the text and then the terminator.
\<close>

definition snprintf_bytes :: "nat \<Rightarrow> string \<Rightarrow> char list" where
  "snprintf_bytes bound str = (if bound = 0 then [] else take (bound - 1) str @ [NUL])"

text \<open>
  Storing bytes at the start of an array. \<open>None\<close> is a store past the end of the array.
\<close>

definition store_bytes :: "c_array \<Rightarrow> char list \<Rightarrow> c_array option" where
  "store_bytes array bytes =
     (if length bytes \<le> length array
      then Some (map Some bytes @ drop (length bytes) array)
      else None)"

text \<open>
  Reading an array as a C string. \<open>None\<close> is a read of a cell never written, or a read
  past the end of an array that holds no terminator.
\<close>

fun read_c_str :: "c_array \<Rightarrow> string option" where
  "read_c_str [] = None"
| "read_c_str (None # cells) = None"
| "read_c_str (Some c # cells) =
     (if c = NUL then Some [] else map_option ((#) c) (read_c_str cells))"

section \<open>The Lua stack of the call\<close>

text \<open>
  The values a caller can pass. A number carries the text \<open>lua_tostring\<close> converts it to
  (Lua's own number format is outside this source); every type that is neither a
  string nor a number and carries nothing the function reads is \<open>Lua_other\<close>.
\<close>

datatype lua_value =
    Lua_nil
  | Lua_boolean bool
  | Lua_number string
  | Lua_string string
  | Lua_other

text \<open>The stack of the running C function: index 1 is the first argument.\<close>

type_synonym lua_State = "lua_value list"

definition lua_gettop :: "lua_State \<Rightarrow> int" where
  "lua_gettop L = int (length L)"

definition lua_index :: "lua_State \<Rightarrow> nat \<Rightarrow> lua_value option" where
  "lua_index L idx = (if 1 \<le> idx \<and> idx \<le> length L then Some (L ! (idx - 1)) else None)"

text \<open>
  \<open>lua_isstring\<close> is true of a string and of a number, and false of an index above the
  top of the stack.
\<close>

definition lua_isstring :: "lua_State \<Rightarrow> nat \<Rightarrow> bool" where
  "lua_isstring L idx =
     (case lua_index L idx of
        Some (Lua_string bytes) \<Rightarrow> True
      | Some (Lua_number str) \<Rightarrow> True
      | _ \<Rightarrow> False)"

text \<open>
  \<open>lua_tostring\<close> returns NULL (\<open>None\<close>) for a value that is neither a string nor a
  number. A Lua string may hold zero bytes: the C code sees the pointer's bytes up to
  the first of them.
\<close>

definition lua_tostring :: "lua_State \<Rightarrow> nat \<Rightarrow> string option" where
  "lua_tostring L idx =
     (case lua_index L idx of
        Some (Lua_string bytes) \<Rightarrow> Some (c_str bytes)
      | Some (Lua_number str) \<Rightarrow> Some (c_str str)
      | _ \<Rightarrow> None)"

section \<open>The loader, the registry and the editor's globals\<close>

text \<open>
  The dynamic loader is outside this source: its two functions are parameters.
  \<open>uv_dlopen path\<close> gives the \<open>int\<close> it returns (0 on success) and the \<open>uv_lib_t\<close> it
  fills in; the path may be NULL.
\<close>

record 'lib loader =
  uv_dlopen :: "string option \<Rightarrow> int \<times> 'lib"
  uv_dlerror :: "'lib \<Rightarrow> string"

datatype 'lib loader_call =
    Dlopen "string option"
  | Disclose 'lib

datatype cout_item =
    Cout_int int
  | Cout_str string

text \<open>
  What the source uses and does not declare: the size \<open>IOSIZE\<close> passed with \<open>IObuff\<close>, the
  implementation-defined \<open>int\<close> value of the multi-character literal \<open>'Hello'\<close>, and the
  position text \<open>luaL_where(L, 1)\<close> that \<open>luaL_error\<close> puts before its message (the chunk
  and line of the caller, empty when the caller has no line information).
\<close>

record config =
  IOSIZE :: nat
  Hello_literal :: int
  where_1 :: string

text \<open>
  The globals the function reads and writes: the registry \<open>langs\<close> (a pointer map keyed by
  C strings), the shared buffer \<open>IObuff\<close>, what was written to \<open>cout\<close>, and the calls made
  to the loader, in order.
\<close>

record 'lib nvim =
  langs :: "string \<rightharpoonup> nat"
  IObuff :: c_array
  cout :: "cout_item list"
  loader_calls :: "'lib loader_call list"

definition pmap_has :: "(string \<rightharpoonup> nat) \<Rightarrow> string \<Rightarrow> bool" where
  "pmap_has m key = (m key \<noteq> None)"

text \<open>
  How a call ends: a \<open>return\<close> statement, a Lua error raised with a message, undefined
  behaviour (a NULL pointer read as a C string, a store or read outside an array, control
  reaching the closing brace of the \<open>int\<close> function with no \<open>return\<close>), or a loop that never
  ends. With \<open>Undefined_behaviour\<close> the globals given are those the statements executed
  up to that point have left; nothing is said of what follows.
\<close>

datatype outcome =
    Return int
  | Lua_error string
  | Undefined_behaviour
  | Diverges

section \<open>\<open>tslua_add_language\<close>\<close>

text \<open>
  \<open>for (int i=0; i++; i<10) { cout << 'Hello' << "\n"; }\<close>: the condition is \<open>i++\<close>, whose
  value is \<open>i\<close> before the increment; the third expression \<open>i<10\<close> has no effect. The
  function takes the value of \<open>i\<close> at a test of the condition and gives \<open>i\<close> and the
  output when the loop is left, or \<open>None\<close> when it is never left. The \<open>int\<close> is
  unbounded here: the loop is entered with \<open>i = 0\<close> only, far from the overflow that C++
  leaves undefined.
\<close>

partial_function (option) hello_loop ::
  "int \<Rightarrow> int \<Rightarrow> cout_item list \<Rightarrow> (int \<times> cout_item list) option" where
  "hello_loop hello i out =
     (if i \<noteq> 0
      then hello_loop hello (i + 1) (out @ [Cout_int hello, Cout_str [CHR 0x0A]])
      else Some (i + 1, out))"

declare hello_loop.simps [code]

definition BUFSIZE :: nat where
  "BUFSIZE = 128"

text \<open>The two format strings, each a fixed prefix followed by \<open>%s\<close>.\<close>

definition symbol_format :: "string \<Rightarrow> string" where
  "symbol_format lang_name = ''tree_sitter_'' @ lang_name"

definition dlopen_error_format :: "string \<Rightarrow> string" where
  "dlopen_error_format err = ''Failed to load parser: uv_dlopen: '' @ err"

text \<open>
  \<open>char symbol_buf[BUFSIZE]; snprintf(symbol_buf, BUFSIZE, "tree_sitter_%s", lang_name);\<close>
  gives the array after the call.
\<close>

definition symbol_buf_snprintf :: "string \<Rightarrow> c_array option" where
  "symbol_buf_snprintf lang_name =
     store_bytes (replicate BUFSIZE None)
       (snprintf_bytes BUFSIZE (symbol_format lang_name))"

text \<open>The entry-symbol name: \<open>symbol_buf\<close> read as a C string.\<close>

definition symbol_name :: "string \<Rightarrow> string option" where
  "symbol_name lang_name =
     (case symbol_buf_snprintf lang_name of
        None \<Rightarrow> None
      | Some symbol_buf \<Rightarrow> read_c_str symbol_buf)"

definition tslua_add_language ::
  "config \<Rightarrow> 'lib loader \<Rightarrow> lua_State \<Rightarrow> 'lib nvim \<Rightarrow> outcome \<times> 'lib nvim" where
  "tslua_add_language cfg ld L s =
     (if (lua_gettop L < 2 \<or> \<not> lua_isstring L 1) \<and> \<not> lua_isstring L 2
      then (Lua_error (where_1 cfg @ ''string expected''), s)
      else
        let path = lua_tostring L 1;
            lang_name = lua_tostring L 2
        in
        case lang_name of
          None \<Rightarrow> (Undefined_behaviour, s)
        | Some name \<Rightarrow>
            if pmap_has (langs s) name then (Return 0, s)
            else
              (case hello_loop (Hello_literal cfg) 0 (cout s) of
                 None \<Rightarrow> (Diverges, s)
               | Some (i, out) \<Rightarrow>
                   let s1 = s\<lparr>cout := out\<rparr> in
                   (case symbol_buf_snprintf name of
                      None \<Rightarrow> (Undefined_behaviour, s1)
                    | Some symbol_buf \<Rightarrow>
                        let (rc, lib) = uv_dlopen ld path;
                            s2 = s1\<lparr>loader_calls := loader_calls s1 @ [Dlopen path]\<rparr>
                        in
                        if rc \<noteq> 0 then
                          (case store_bytes (IObuff s2)
                                  (snprintf_bytes (IOSIZE cfg)
                                     (dlopen_error_format (c_str (uv_dlerror ld lib)))) of
                             None \<Rightarrow> (Undefined_behaviour, s2)
                           | Some buf \<Rightarrow>
                               let s3 = s2\<lparr>IObuff := buf\<rparr>;
                                   s4 = s3\<lparr>loader_calls := loader_calls s3 @ [Disclose lib]\<rparr>
                               in
                               (case read_c_str (IObuff s4) of
                                  None \<Rightarrow> (Undefined_behaviour, s4)
                                | Some msg \<Rightarrow> (Lua_error msg, s4)))
                        else (Undefined_behaviour, s2))))"

section \<open>Example calls\<close>

text \<open>
  The inputs of the worked examples: the editor's buffer size, a loader stub that opens
  every path, one that opens none and reports \<open>file not found\<close>, the globals before any
  registration, and the call \<open>add_language("/usr/lib/libtspython.so", "python")\<close>.
\<close>

abbreviation stub_config :: config where
  "stub_config \<equiv> \<lparr>IOSIZE = 1025, Hello_literal = 0, where_1 = ''init.lua:1: ''\<rparr>"

abbreviation loader_succeeds :: "nat loader" where
  "loader_succeeds \<equiv> \<lparr>uv_dlopen = (\<lambda>path. (0, 1)), uv_dlerror = (\<lambda>lib. ''no error'')\<rparr>"

abbreviation loader_fails :: "nat loader" where
  "loader_fails \<equiv> \<lparr>uv_dlopen = (\<lambda>path. (- 1, 0)), uv_dlerror = (\<lambda>lib. ''file not found'')\<rparr>"

abbreviation fresh_nvim :: "nat nvim" where
  "fresh_nvim \<equiv>
     \<lparr>langs = Map.empty, IObuff = replicate 1025 (Some NUL), cout = [], loader_calls = []\<rparr>"


section \<open>Facts about the string functions\<close>

lemma read_c_str_terminated:
  "NUL \<notin> set str \<Longrightarrow> read_c_str (map Some str @ Some NUL # rest) = Some str"
  by (induction str) auto

lemma c_str_no_NUL: "NUL \<notin> set (c_str bytes)"
  unfolding c_str_def by (induction bytes) auto

lemma c_str_id: "NUL \<notin> set str \<Longrightarrow> c_str str = str"
  unfolding c_str_def by (induction str) auto

lemma length_snprintf_bytes:
  "length (snprintf_bytes bound str) = (if bound = 0 then 0 else min (length str) (bound - 1) + 1)"
  by (simp add: snprintf_bytes_def)

lemma length_snprintf_bytes_le: "length (snprintf_bytes bound str) \<le> bound"
  by (cases bound) (simp_all add: length_snprintf_bytes)

lemma store_snprintf_fits:
  assumes "0 < bound" "bound \<le> length array"
  shows "store_bytes array (snprintf_bytes bound str) =
    Some (map Some (take (bound - 1) str) @ Some NUL
            # drop (min (length str) (bound - 1) + 1) array)"
  using assms by (simp add: store_bytes_def snprintf_bytes_def)

lemma length_symbol_format: "length (symbol_format lang_name) = 12 + length lang_name"
  by (simp add: symbol_format_def)

lemma symbol_buf_snprintf_eq:
  "symbol_buf_snprintf lang_name =
     Some (map Some (take 127 (symbol_format lang_name)) @ Some NUL
             # replicate (115 - length lang_name) None)"
  unfolding symbol_buf_snprintf_def BUFSIZE_def
  by (subst store_snprintf_fits) (auto simp: min_def length_symbol_format)

lemma NUL_notin_symbol_format: "NUL \<notin> set lang_name \<Longrightarrow> NUL \<notin> set (symbol_format lang_name)"
  by (simp add: symbol_format_def NUL_def)

lemma NUL_notin_dlopen_error_format: "NUL \<notin> set err \<Longrightarrow> NUL \<notin> set (dlopen_error_format err)"
  by (simp add: dlopen_error_format_def NUL_def)

lemma NUL_notin_take: "NUL \<notin> set str \<Longrightarrow> NUL \<notin> set (take n str)"
  by (auto dest: in_set_takeD)

section \<open>The paths through \<open>tslua_add_language\<close>\<close>

lemma hello_loop_zero: "hello_loop hello 0 out = Some (1, out)"
  by (subst hello_loop.simps) simp

lemma tostring_isstring: "lua_tostring L idx = Some name \<Longrightarrow> lua_isstring L idx"
  by (auto simp: lua_tostring_def lua_isstring_def split: option.splits lua_value.splits)

lemma isstring_tostring: "lua_isstring L idx \<Longrightarrow> \<exists>name. lua_tostring L idx = Some name"
  by (auto simp: lua_tostring_def lua_isstring_def split: option.splits lua_value.splits)

lemma isstring_above_top: "length L < idx \<Longrightarrow> \<not> lua_isstring L idx"
  by (simp add: lua_isstring_def lua_index_def)

lemma rejected_iff:
  "((lua_gettop L < 2 \<or> \<not> lua_isstring L 1) \<and> \<not> lua_isstring L 2) =
   (length L < 2 \<or> (\<not> lua_isstring L 1 \<and> \<not> lua_isstring L 2))"
  using isstring_above_top [of L 2] by (auto simp: lua_gettop_def)

lemma tslua_rejected:
  assumes "(lua_gettop L < 2 \<or> \<not> lua_isstring L 1) \<and> \<not> lua_isstring L 2"
  shows "tslua_add_language cfg ld L s = (Lua_error (where_1 cfg @ ''string expected''), s)"
  using assms unfolding tslua_add_language_def by simp

lemma tslua_few_arguments:
  assumes "length L < 2"
  shows "tslua_add_language cfg ld L s = (Lua_error (where_1 cfg @ ''string expected''), s)"
  using assms by (intro tslua_rejected) (simp add: lua_gettop_def isstring_above_top)

lemma tslua_null_name:
  assumes "lua_gettop L \<ge> 2" "lua_isstring L 1" "\<not> lua_isstring L 2"
  shows "tslua_add_language cfg ld L s = (Undefined_behaviour, s)"
proof -
  have "lua_tostring L 2 = None"
    using assms(3) tostring_isstring by (cases "lua_tostring L 2") auto
  with assms show ?thesis
    unfolding tslua_add_language_def by simp
qed

lemma tslua_registered:
  assumes "lua_tostring L 2 = Some name" "langs s name \<noteq> None"
  shows "tslua_add_language cfg ld L s = (Return 0, s)"
  using assms tostring_isstring [OF assms(1)]
  unfolding tslua_add_language_def by (simp add: pmap_has_def)

lemma tslua_loaded:
  assumes "lua_tostring L 2 = Some name" "langs s name = None"
    and "uv_dlopen ld (lua_tostring L 1) = (0, lib)"
  shows "tslua_add_language cfg ld L s =
    (Undefined_behaviour, s\<lparr>loader_calls := loader_calls s @ [Dlopen (lua_tostring L 1)]\<rparr>)"
  using assms tostring_isstring [OF assms(1)]
  unfolding tslua_add_language_def
  by (simp add: pmap_has_def hello_loop_zero symbol_buf_snprintf_eq)

lemma tslua_load_failed:
  assumes "lua_tostring L 2 = Some name" "langs s name = None"
    and "uv_dlopen ld (lua_tostring L 1) = (rc, lib)" "rc \<noteq> 0"
    and "0 < IOSIZE cfg" "IOSIZE cfg \<le> length (IObuff s)"
    and "msg = dlopen_error_format (c_str (uv_dlerror ld lib))"
  shows "tslua_add_language cfg ld L s =
    (Lua_error (take (IOSIZE cfg - 1) msg),
     s\<lparr>IObuff := map Some (take (IOSIZE cfg - 1) msg) @ Some NUL
         # drop (min (length msg) (IOSIZE cfg - 1) + 1) (IObuff s),
       loader_calls := loader_calls s @ [Dlopen (lua_tostring L 1), Disclose lib]\<rparr>)"
proof -
  have "NUL \<notin> set msg"
    unfolding assms(7) by (intro NUL_notin_dlopen_error_format c_str_no_NUL)
  then have nul: "NUL \<notin> set (take (IOSIZE cfg - 1) msg)"
    by (rule NUL_notin_take)
  have store: "store_bytes (IObuff s) (snprintf_bytes (IOSIZE cfg) msg) =
      Some (map Some (take (IOSIZE cfg - 1) msg) @ Some NUL
              # drop (min (length msg) (IOSIZE cfg - 1) + 1) (IObuff s))"
    using assms(5,6) by (rule store_snprintf_fits)
  show ?thesis
    using assms(1-4) tostring_isstring [OF assms(1)]
    unfolding tslua_add_language_def assms(7)
    by (simp add: pmap_has_def hello_loop_zero symbol_buf_snprintf_eq
        store [unfolded assms(7)] read_c_str_terminated [OF nul, unfolded assms(7)]
        Let_def del: One_nat_def)
qed

lemma tslua_cout_unchanged: "cout (snd (tslua_add_language cfg ld L s)) = cout s"
  unfolding tslua_add_language_def
  by (simp add: hello_loop_zero Let_def split: option.splits prod.splits)


section \<open>The claims\<close>

subsection \<open>Argument validation\<close>

text \<open>
  C1 says that a call with fewer than two arguments, or with a first or second argument
  that is not a string, is rejected with \<open>string expected\<close> and does nothing more. The
  condition of the source is \<open>(top < 2 || !isstring(1)) && !isstring(2)\<close>: it rejects a
  call with fewer than two arguments (\<open>tslua_few_arguments\<close>) and a call where neither
  argument is a string (\<open>rejected_iff\<close>), and lets through every call with two arguments
  of which one is a string. The call \<open>add_language(nil, "python")\<close> is not rejected: the
  loader is called with a NULL path. With a loader that fails, the call ends in the
  loader's error, after the release call; with a loader that succeeds, it runs to the
  closing brace of the function.
\<close>

theorem C1_nil_path_is_accepted:
  "fst (tslua_add_language stub_config loader_fails [Lua_nil, Lua_string ''python''] fresh_nvim) =
     Lua_error ''Failed to load parser: uv_dlopen: file not found''
   \<and> loader_calls
         (snd (tslua_add_language stub_config loader_fails [Lua_nil, Lua_string ''python'']
            fresh_nvim)) =
       [Dlopen None, Disclose 0]
   \<and> tslua_add_language stub_config loader_succeeds [Lua_nil, Lua_string ''python''] fresh_nvim =
       (Undefined_behaviour, fresh_nvim\<lparr>loader_calls := [Dlopen None]\<rparr>)"
proof -
  note failed = tslua_load_failed
    [where L = "[Lua_nil, Lua_string ''python'']" and s = fresh_nvim and ld = loader_fails
      and cfg = stub_config and name = "''python''" and rc = "- 1" and lib = 0,
      OF _ _ _ _ _ _ refl]
  note loaded = tslua_loaded
    [where L = "[Lua_nil, Lua_string ''python'']" and s = fresh_nvim and ld = loader_succeeds
      and cfg = stub_config and name = "''python''" and lib = 1]
  have "fst (tslua_add_language stub_config loader_fails
        [Lua_nil, Lua_string ''python''] fresh_nvim) =
      Lua_error ''Failed to load parser: uv_dlopen: file not found''"
    using failed
    by (simp add: lua_tostring_def lua_index_def c_str_def NUL_def dlopen_error_format_def)
  moreover have "loader_calls (snd (tslua_add_language stub_config loader_fails
        [Lua_nil, Lua_string ''python''] fresh_nvim)) = [Dlopen None, Disclose 0]"
    using failed
    by (simp add: lua_tostring_def lua_index_def c_str_def NUL_def)
  moreover have "tslua_add_language stub_config loader_succeeds
        [Lua_nil, Lua_string ''python''] fresh_nvim =
      (Undefined_behaviour, fresh_nvim\<lparr>loader_calls := [Dlopen None]\<rparr>)"
    using loaded
    by (simp add: lua_tostring_def lua_index_def c_str_def NUL_def)
  ultimately show ?thesis
    by simp
qed

subsection \<open>Loading\<close>




text \<open>
  C3: when the name read from the second argument is already in the registry, the call
  returns 0 and leaves every global as it was: the registry and the handle stored in it
  are untouched, and no call to the loader is recorded.
\<close>

theorem C3_registered_name_returns_at_once:
  assumes "lua_tostring L 2 = Some name" and "langs s name = Some handle"
  shows "tslua_add_language cfg ld L s = (Return 0, s)"
  using assms by (intro tslua_registered [where name = name]) simp_all

theorem C3_registered_name_returns_at_once_witness:
  "tslua_add_language stub_config loader_fails
     [Lua_string ''/no/such/file.so'', Lua_string ''python'']
     (fresh_nvim\<lparr>langs := [''python'' \<mapsto> 7]\<rparr>) =
   (Return 0, fresh_nvim\<lparr>langs := [''python'' \<mapsto> 7]\<rparr>)"
  by (rule C3_registered_name_returns_at_once [where name = "''python''" and handle = 7])
    (simp_all add: lua_tostring_def lua_index_def c_str_def NUL_def)

text \<open>
  C4: when \<open>uv_dlopen\<close> returns non-zero, the call raises a Lua error whose message is
  \<open>Failed to load parser: uv_dlopen: \<close> followed by the text of \<open>uv_dlerror\<close>, cut to
  \<open>IOSIZE - 1\<close> characters; the message is not empty, and the registry is as before.
  \<open>IOSIZE\<close> and \<open>IObuff\<close> are declared outside this source: the buffer is taken to hold
  at least \<open>IOSIZE\<close> characters, and \<open>IOSIZE\<close> to be at least 2.
\<close>

theorem C4_load_failure_is_reported:
  assumes "lua_tostring L 2 = Some name" and "langs s name = None"
    and "uv_dlopen ld (lua_tostring L 1) = (rc, lib)" and "rc \<noteq> 0"
    and "2 \<le> IOSIZE cfg" and "IOSIZE cfg \<le> length (IObuff s)"
  shows "fst (tslua_add_language cfg ld L s) =
      Lua_error (take (IOSIZE cfg - 1) (dlopen_error_format (c_str (uv_dlerror ld lib))))
    \<and> take (IOSIZE cfg - 1) (dlopen_error_format (c_str (uv_dlerror ld lib))) \<noteq> []
    \<and> langs (snd (tslua_add_language cfg ld L s)) = langs s"
proof -
  have "0 < IOSIZE cfg"
    using assms(5) by simp
  from tslua_load_failed [OF assms(1-4) this assms(6) refl]
  have "fst (tslua_add_language cfg ld L s) =
      Lua_error (take (IOSIZE cfg - 1) (dlopen_error_format (c_str (uv_dlerror ld lib))))"
    and "langs (snd (tslua_add_language cfg ld L s)) = langs s"
    by simp_all
  moreover have "take (IOSIZE cfg - 1) (dlopen_error_format (c_str (uv_dlerror ld lib))) \<noteq> []"
    using assms(5) by (simp add: dlopen_error_format_def)
  ultimately show ?thesis
    by simp
qed

theorem C4_load_failure_is_reported_witness:
  "fst (tslua_add_language stub_config loader_fails
          [Lua_string ''/no/such/file.so'', Lua_string ''python''] fresh_nvim) =
     Lua_error ''Failed to load parser: uv_dlopen: file not found''
   \<and> langs (snd (tslua_add_language stub_config loader_fails
          [Lua_string ''/no/such/file.so'', Lua_string ''python''] fresh_nvim)) ''python'' = None"
  using C4_load_failure_is_reported
    [of "[Lua_string ''/no/such/file.so'', Lua_string ''python'']" "''python''" fresh_nvim
        loader_fails "- 1" 0 stub_config]
  by (simp add: lua_tostring_def lua_index_def c_str_def NUL_def dlopen_error_format_def)

text \<open>
  C8: when \<open>uv_dlopen\<close> returns non-zero, the calls made to the loader are
  \<open>uv_dlopen\<close> on the path and then the release call on the library it filled in (the
  source names that call \<open>uv_disclose\<close>), and the call then ends in the Lua error.
\<close>

theorem C8_library_released_before_error:
  assumes "lua_tostring L 2 = Some name" and "langs s name = None"
    and "uv_dlopen ld (lua_tostring L 1) = (rc, lib)" and "rc \<noteq> 0"
    and "0 < IOSIZE cfg" and "IOSIZE cfg \<le> length (IObuff s)"
  shows "loader_calls (snd (tslua_add_language cfg ld L s)) =
      loader_calls s @ [Dlopen (lua_tostring L 1), Disclose lib]
    \<and> (\<exists>msg. fst (tslua_add_language cfg ld L s) = Lua_error msg)"
  using tslua_load_failed [OF assms refl] by simp

theorem C8_library_released_before_error_witness:
  "loader_calls (snd (tslua_add_language stub_config loader_fails
          [Lua_string ''/no/such/file.so'', Lua_string ''python''] fresh_nvim)) =
     [Dlopen (Some ''/no/such/file.so''), Disclose 0]
   \<and> (\<exists>msg. fst (tslua_add_language stub_config loader_fails
          [Lua_string ''/no/such/file.so'', Lua_string ''python''] fresh_nvim) = Lua_error msg)"
  using C8_library_released_before_error
    [of "[Lua_string ''/no/such/file.so'', Lua_string ''python'']" "''python''" fresh_nvim
        loader_fails "- 1" 0 stub_config]
  by (simp add: lua_tostring_def lua_index_def c_str_def NUL_def)

subsection \<open>Registering twice\<close>




subsection \<open>The entry-symbol name\<close>

text \<open>
  C5: for a name of at most 115 characters (so that the prefix, the name and the
  terminator fit the 128 characters of \<open>symbol_buf\<close>), the C string in \<open>symbol_buf\<close> is
  \<open>tree_sitter_\<close> followed by the name; for \<open>python\<close> it is \<open>tree_sitter_python\<close>.
\<close>

theorem C5_symbol_name_is_prefix_and_name:
  assumes "NUL \<notin> set name" and "length name \<le> 115"
  shows "symbol_name name = Some (''tree_sitter_'' @ name)"
proof -
  have "take 127 (symbol_format name) = symbol_format name"
    using assms(2) by (simp add: length_symbol_format)
  moreover have "NUL \<notin> set (symbol_format name)"
    using assms(1) by (rule NUL_notin_symbol_format)
  ultimately have "symbol_name name = Some (symbol_format name)"
    by (simp add: symbol_name_def symbol_buf_snprintf_eq read_c_str_terminated)
  then show ?thesis
    by (simp add: symbol_format_def)
qed

theorem C5_symbol_name_is_prefix_and_name_witness:
  "symbol_name ''python'' = Some ''tree_sitter_python''"
  using C5_symbol_name_is_prefix_and_name [of "''python''"]
  by (simp add: NUL_def)

text \<open>
  C7: for a name of more than 115 characters, \<open>symbol_buf\<close> holds the first 127
  characters of \<open>tree_sitter_\<close> followed by the name, and then the terminator; the
  bytes stored are exactly as many as the array has, so none is stored outside it.
\<close>

theorem C7_long_name_is_truncated:
  assumes "115 < length name"
  shows "symbol_buf_snprintf name = Some (map Some (take 127 (''tree_sitter_'' @ name) @ [NUL]))
    \<and> length (snprintf_bytes BUFSIZE (symbol_format name)) = BUFSIZE"
  using assms
  by (simp add: symbol_buf_snprintf_eq length_snprintf_bytes length_symbol_format BUFSIZE_def)
    (simp add: symbol_format_def)

theorem C7_long_name_is_truncated_witness:
  "symbol_buf_snprintf (replicate 116 (CHR ''x'')) =
     Some (map Some (take 127 (''tree_sitter_'' @ replicate 116 (CHR ''x'')) @ [NUL]))
   \<and> length (snprintf_bytes BUFSIZE (symbol_format (replicate 116 (CHR ''x'')))) = BUFSIZE"
  using C7_long_name_is_truncated [of "replicate 116 (CHR ''x'')"]
  by simp

subsection \<open>The loop\<close>

text \<open>
  C10: the loop, entered with \<open>i = 0\<close>, is left at the first test of its condition with
  \<open>i = 1\<close> and the output as it was: its body runs zero times. No call writes to
  \<open>cout\<close>.
\<close>

theorem C10_loop_body_never_runs:
  "hello_loop hello 0 out = Some (1, out)
   \<and> cout (snd (tslua_add_language cfg ld L s)) = cout s"
  by (simp add: hello_loop_zero tslua_cout_unchanged)

end
